theory Spec2Isabelle
  imports Complex_Main "HOL-Library.Char_ord" "HOL-Library.List_Lexorder"
begin

section \<open>Numbers, missing values and errors\<close>

text \<open>
  The script computes with float64 values. They are modelled as exact rationals, with
  \<open>None\<close> standing for NaN. Infinite values do not arise from the divisions: every
  division in the script is guarded by a test that the denominator is positive. The
  binary rounding of the float operations is outside this model. Two consequences are
  kept in view below. Sums and differences of whole numbers are exact in float64 only
  while every value stays within \<open>2 ^ 53\<close> in magnitude, so a statement about exact
  integer sums carries that bound. And the decimal rounding the script asks for
  (\<open>round(x, 6)\<close>, \<open>.round(8)\<close>, \<open>int(round(x))\<close>) is modelled on the exact rational,
  half to even, where the script rounds the binary double: at a decimal tie the two may
  choose different neighbours. No theorem below depends on which neighbour is chosen at
  a tie that is not exactly representable in binary.
\<close>

type_synonym pyfloat = "rat option"

abbreviation nan :: pyfloat where
  "nan \<equiv> None"

datatype error = RuntimeError string | ValueError string | TypeError

definition isfinite :: "pyfloat \<Rightarrow> bool" where
  "isfinite v = (v \<noteq> nan)"

definition fillna0 :: "pyfloat \<Rightarrow> rat" where
  "fillna0 v = (case v of None \<Rightarrow> 0 | Some x \<Rightarrow> x)"

text \<open>Float arithmetic on possibly missing operands: NaN propagates.\<close>

definition fsub :: "pyfloat \<Rightarrow> pyfloat \<Rightarrow> pyfloat" where
  "fsub a b = (case a of None \<Rightarrow> nan | Some x \<Rightarrow> (case b of None \<Rightarrow> nan | Some y \<Rightarrow> Some (x - y)))"

definition fmul :: "pyfloat \<Rightarrow> pyfloat \<Rightarrow> pyfloat" where
  "fmul a b = (case a of None \<Rightarrow> nan | Some x \<Rightarrow> (case b of None \<Rightarrow> nan | Some y \<Rightarrow> Some (x * y)))"

text \<open>Division; the script only divides where the divisor is known to be positive.\<close>

definition fdiv :: "pyfloat \<Rightarrow> pyfloat \<Rightarrow> pyfloat" where
  "fdiv a b = (case a of None \<Rightarrow> nan | Some x \<Rightarrow> (case b of None \<Rightarrow> nan | Some y \<Rightarrow> Some (x / y)))"

text \<open>The comparison \<open>oi > 0\<close> on a column: false on NaN.\<close>

definition fpos :: "pyfloat \<Rightarrow> bool" where
  "fpos v = (case v of None \<Rightarrow> False | Some x \<Rightarrow> 0 < x)"

text \<open>Python's \<open>round(x)\<close>: to the nearest integer, ties to the even one.\<close>

definition py_round :: "rat \<Rightarrow> int" where
  "py_round v =
     (let f = \<lfloor>v\<rfloor>; d = v - of_int f
      in if d < 1 / 2 then f else if 1 / 2 < d then f + 1 else if even f then f else f + 1)"

text \<open>\<open>round(x, n)\<close> and \<open>Series.round(n)\<close> on a finite value.\<close>

definition round_nd :: "rat \<Rightarrow> nat \<Rightarrow> rat" where
  "round_nd v n = of_int (py_round (v * 10 ^ n)) / 10 ^ n"

text \<open>
  \<open>round(float(x), n) if np.isfinite(x) else np.nan\<close>, and \<open>Series.round(n)\<close>,
  which leaves NaN in place.
\<close>

definition round_opt :: "pyfloat \<Rightarrow> nat \<Rightarrow> pyfloat" where
  "round_opt v n = (if isfinite v then Some (round_nd (fillna0 v) n) else nan)"

text \<open>\<open>Series.sum()\<close>: missing values are skipped and the empty sum is 0.\<close>

definition nansum :: "pyfloat list \<Rightarrow> rat" where
  "nansum vs = sum_list (map fillna0 vs)"

text \<open>
  \<open>xs[:n]\<close> and \<open>DataFrame.head(n)\<close>: the first \<open>n\<close> items, and for a negative \<open>n\<close>
  all but the last \<open>-n\<close>.
\<close>

definition py_head :: "int \<Rightarrow> 'a list \<Rightarrow> 'a list" where
  "py_head n xs = (if 0 \<le> n then take (nat n) xs else take (nat (int (length xs) + n)) xs)"

text \<open>
  \<open>sort_values(key, ascending=...)\<close>. Descending order is obtained the way pandas does
  it, by sorting the reversed table and reversing the result. pandas' default sort
  (quicksort) does not fix the order of rows with equal keys; the model uses a stable
  sort, and no theorem below depends on the order among equal keys.
\<close>

definition sort_values :: "('a \<Rightarrow> 'k::linorder) \<Rightarrow> bool \<Rightarrow> 'a list \<Rightarrow> 'a list" where
  "sort_values key ascending xs =
     (if ascending then sort_key key xs else rev (sort_key key (rev xs)))"

text \<open>Running a fallible function over a column: the first exception ends the run.\<close>

fun map_result :: "('a \<Rightarrow> error + 'b) \<Rightarrow> 'a list \<Rightarrow> error + 'b list" where
  "map_result f [] = Inr []"
| "map_result f (x # xs) =
     (case f x of
        Inl e \<Rightarrow> Inl e
      | Inr y \<Rightarrow> (case map_result f xs of Inl e \<Rightarrow> Inl e | Inr ys \<Rightarrow> Inr (y # ys)))"

section \<open>Configuration\<close>

definition MIN_CALL_OI :: int where "MIN_CALL_OI = 1000"
definition MIN_CALL_VOL :: int where "MIN_CALL_VOL = 500"
definition MIN_TOTAL_OI :: int where "MIN_TOTAL_OI = 10000"
definition MAX_EXPIRIES :: "int option" where "MAX_EXPIRIES = None"
definition TOP_N :: int where "TOP_N = 5"

section \<open>The data provider\<close>

text \<open>
  The option-chain provider is external. A contract row carries a nullable volume and a
  nullable open interest; a chain is the calls and the puts of one expiry; a ticker lists
  its expiry labels and retrieves a chain, where \<open>None\<close> stands for any exception raised
  inside the \<open>try\<close> block of the aggregation.
\<close>

record contract =
  volume :: pyfloat
  openInterest :: pyfloat

record chain =
  calls :: "contract list"
  puts :: "contract list"

record ticker =
  options :: "string list"
  option_chain :: "string \<Rightarrow> chain option"

section \<open>Core aggregation\<close>

record expiry_row =
  Symbol :: string
  Expiry :: string
  Put_Volume :: int
  Call_Volume :: int
  Volume_PCR :: pyfloat
  Put_OI :: int
  Call_OI :: int
  OI_PCR :: pyfloat
  Total_OI :: int

record attrs =
  Expiries_Used :: nat
  Expiries_Requested :: nat

text \<open>
  \<open>float(frame[col].fillna(0).sum())\<close>, as an exact sum. The float64 sum agrees with it,
  in whatever order pandas adds, when the values are non-negative whole numbers whose
  total is at most \<open>2 ^ 53\<close>; beyond that the float64 sum is rounded.
\<close>

definition col_sum :: "(contract \<Rightarrow> pyfloat) \<Rightarrow> contract list \<Rightarrow> rat" where
  "col_sum col frame = sum_list (map (\<lambda>c. fillna0 (col c)) frame)"

text \<open>The body of the \<open>try\<close> block once the chain of expiry \<open>exp\<close> has been retrieved.\<close>

definition chain_row :: "string \<Rightarrow> string \<Rightarrow> chain \<Rightarrow> expiry_row" where
  "chain_row symbol expiry ch =
     (let c_vol = col_sum volume (calls ch);
          p_vol = col_sum volume (puts ch);
          c_oi = col_sum openInterest (calls ch);
          p_oi = col_sum openInterest (puts ch);
          vol_pcr = (if 0 < c_vol then Some (p_vol / c_vol) else nan);
          oi_pcr = (if 0 < c_oi then Some (p_oi / c_oi) else nan)
      in \<lparr> Symbol = symbol,
           Expiry = expiry,
           Put_Volume = py_round p_vol,
           Call_Volume = py_round c_vol,
           Volume_PCR = round_opt vol_pcr 6,
           Put_OI = py_round p_oi,
           Call_OI = py_round c_oi,
           OI_PCR = round_opt oi_pcr 6,
           Total_OI = py_round (p_oi + c_oi) \<rparr>)"

text \<open>
  The loop over the expiries, with its two accumulators \<open>rows\<close> and \<open>used\<close>. An
  exception for one expiry is caught and the loop continues with the next.
\<close>

fun totals_loop ::
  "ticker \<Rightarrow> string \<Rightarrow> string list \<Rightarrow> expiry_row list \<times> nat \<Rightarrow> expiry_row list \<times> nat" where
  "totals_loop tk symbol [] acc = acc"
| "totals_loop tk symbol (expiry # exps) (rows, used) =
     (case option_chain tk expiry of
        None \<Rightarrow> totals_loop tk symbol exps (rows, used)
      | Some ch \<Rightarrow> totals_loop tk symbol exps (rows @ [chain_row symbol expiry ch], used + 1))"

definition per_expiry_totals ::
  "(string \<Rightarrow> ticker) \<Rightarrow> string \<Rightarrow> int option \<Rightarrow> error + expiry_row list \<times> attrs" where
  "per_expiry_totals yf symbol max_expiries =
     (let tk = yf symbol;
          expiries = options tk
      in if expiries = [] then Inl (RuntimeError (''No option expirations for '' @ symbol))
         else
           let expiries = (case max_expiries of None \<Rightarrow> expiries | Some m \<Rightarrow> py_head m expiries);
               (rows, used) = totals_loop tk symbol expiries ([], 0)
           in if rows = [] then Inl (RuntimeError (''No chain data aggregated for '' @ symbol))
              else Inr (sort_values Expiry True rows,
                        \<lparr> Expiries_Used = used, Expiries_Requested = length expiries \<rparr>))"

section \<open>Signal layer\<close>

text \<open>
  Dates are day numbers (proleptic ordinals), so that the difference of two dates is their
  number of days. The parser behind \<open>pd.to_datetime(..., errors="coerce")\<close> is external and
  is a parameter \<open>to_datetime\<close>: \<open>None\<close> for a string it cannot parse. The accessor
  \<open>.dt.date\<close> turns a parsed timestamp into a \<open>datetime.date\<close> and leaves a missing one as
  pandas' marker \<open>NaT\<close>; it never produces Python's \<open>None\<close>.
\<close>

datatype date_obj = PyNone | NaT | PyDate int

definition dt_date :: "(string \<Rightarrow> int option) \<Rightarrow> string \<Rightarrow> date_obj" where
  "dt_date to_datetime s = (case to_datetime s of None \<Rightarrow> NaT | Some d \<Rightarrow> PyDate d)"

text \<open>
  The mapped function \<open>lambda x: (x - d0).days if x is not None else np.nan\<close>. \<open>NaT\<close> is not
  \<open>None\<close>, so the subtraction is attempted on it; \<open>NaT\<close> subtracts datetimes and
  timedeltas only, and \<open>datetime.date\<close> refuses a datetime operand, so \<open>NaT - d0\<close> raises
  \<open>TypeError\<close>.
\<close>

fun days_from :: "int \<Rightarrow> date_obj \<Rightarrow> error + int option" where
  "days_from d0 PyNone = Inr None"
| "days_from d0 NaT = Inl TypeError"
| "days_from d0 (PyDate d) = Inr (Some (d - d0))"

record dte_row = expiry_row +
  DTE :: "int option"

text \<open>\<open>asof or date.today()\<close>; the current date is the parameter \<open>today\<close>.\<close>

definition add_dte ::
  "(string \<Rightarrow> int option) \<Rightarrow> int \<Rightarrow> expiry_row list \<Rightarrow> int option \<Rightarrow> error + dte_row list" where
  "add_dte to_datetime today df asof =
     (let d0 = (case asof of Some d \<Rightarrow> d | None \<Rightarrow> today)
      in map_result
           (\<lambda>r. case days_from d0 (dt_date to_datetime (Expiry r)) of
                  Inl e \<Rightarrow> Inl e
                | Inr d \<Rightarrow> Inr (expiry_row.extend r (dte_row.fields d)))
           df)"

record flow_row = dte_row +
  Divergence_Vol_minus_OI :: pyfloat
  Impulse_Vol_over_OI :: pyfloat

definition add_flow_vs_positioning :: "dte_row list \<Rightarrow> flow_row list" where
  "add_flow_vs_positioning df =
     map (\<lambda>r. let v = Volume_PCR r;
                  oi = OI_PCR r
              in dte_row.extend r
                   (flow_row.fields
                      (round_opt (fsub v oi) 6)
                      (round_opt (if fpos oi \<and> isfinite oi \<and> isfinite v then fdiv v oi else nan) 6)))
         df"

record quality_row = flow_row +
  Quality_OK :: bool

definition add_quality_flags :: "flow_row list \<Rightarrow> int \<Rightarrow> int \<Rightarrow> int \<Rightarrow> quality_row list" where
  "add_quality_flags df min_call_oi min_call_vol min_total_oi =
     map (\<lambda>r. flow_row.extend r
                (quality_row.fields
                   (min_call_oi \<le> Call_OI r \<and> min_call_vol \<le> Call_Volume r \<and> min_total_oi \<le> Total_OI r)))
         df"

record enriched_row = quality_row +
  EventScore_OIshare_x_OI_PCR :: pyfloat

definition add_event_score :: "quality_row list \<Rightarrow> enriched_row list" where
  "add_event_score df =
     (let denom = rat_of_int (sum_list (map Total_OI df))
      in if denom \<le> 0
         then map (\<lambda>r. quality_row.extend r (enriched_row.fields nan)) df
         else map (\<lambda>r. let oi_pcr = OI_PCR r;
                           share = Some (rat_of_int (Total_OI r) / denom)
                       in quality_row.extend r (enriched_row.fields (round_opt (fmul share oi_pcr) 8)))
                  df)"

definition enrich_per_expiry ::
  "(string \<Rightarrow> ticker) \<Rightarrow> (string \<Rightarrow> int option) \<Rightarrow> int \<Rightarrow> string \<Rightarrow> int option
     \<Rightarrow> error + enriched_row list \<times> attrs" where
  "enrich_per_expiry yf to_datetime today symbol max_expiries =
     (case per_expiry_totals yf symbol max_expiries of
        Inl e \<Rightarrow> Inl e
      | Inr (base, base_attrs) \<Rightarrow>
          (case add_dte to_datetime today base None of
             Inl e \<Rightarrow> Inl e
           | Inr df \<Rightarrow>
               Inr (add_event_score
                      (add_quality_flags (add_flow_vs_positioning df)
                         MIN_CALL_OI MIN_CALL_VOL MIN_TOTAL_OI),
                    base_attrs)))"

section \<open>Buckets and bucket concentration scoring\<close>

definition buckets :: "(string \<times> int \<times> int) list" where
  "buckets = [(''Short_1_20'', 1, 20), (''Mid_21_60'', 21, 60), (''Long_61_120'', 61, 120)]"

record bucket_base =
  Bucket :: string
  DTE_Min :: int
  DTE_Max :: int
  Sum_Put_OI :: int
  Sum_Call_OI :: int
  Bucket_OI_PCR :: pyfloat
  Sum_Put_Volume :: int
  Sum_Call_Volume :: int
  Bucket_Volume_PCR :: pyfloat
  Bucket_TotalOI :: int
  Bucket_TotalOI_Share :: pyfloat

record bucket_row = bucket_base +
  Bucket_Concentration_Score :: pyfloat
  Bucket_Concentration_Share :: pyfloat

text \<open>\<open>(t["DTE"] >= lo) & (t["DTE"] <= hi)\<close>: false where DTE is missing.\<close>

definition in_band :: "int \<Rightarrow> int \<Rightarrow> int option \<Rightarrow> bool" where
  "in_band lo hi d = (case d of None \<Rightarrow> False | Some n \<Rightarrow> lo \<le> n \<and> n \<le> hi)"

text \<open>The body of the loop over the bands; \<open>t\<close> is the filtered table.\<close>

definition bucket_of ::
  "'a quality_row_scheme list \<Rightarrow> rat \<Rightarrow> string \<times> int \<times> int \<Rightarrow> bucket_base" where
  "bucket_of t denom_total_oi band =
     (case band of (name, lo, hi) \<Rightarrow>
        let w = filter (\<lambda>r. in_band lo hi (DTE r)) t;
            put_oi = rat_of_int (sum_list (map Put_OI w));
            call_oi = rat_of_int (sum_list (map Call_OI w));
            put_vol = rat_of_int (sum_list (map Put_Volume w));
            call_vol = rat_of_int (sum_list (map Call_Volume w));
            total_oi = rat_of_int (sum_list (map Total_OI w));
            oi_pcr = (if 0 < call_oi then Some (put_oi / call_oi) else nan);
            vol_pcr = (if 0 < call_vol then Some (put_vol / call_vol) else nan);
            oi_share = (if 0 < denom_total_oi then Some (total_oi / denom_total_oi) else nan)
        in \<lparr> Bucket = name,
             DTE_Min = lo,
             DTE_Max = hi,
             Sum_Put_OI = py_round put_oi,
             Sum_Call_OI = py_round call_oi,
             Bucket_OI_PCR = round_opt oi_pcr 6,
             Sum_Put_Volume = py_round put_vol,
             Sum_Call_Volume = py_round call_vol,
             Bucket_Volume_PCR = round_opt vol_pcr 6,
             Bucket_TotalOI = py_round total_oi,
             Bucket_TotalOI_Share = round_opt oi_share 6 \<rparr>)"

text \<open>
  The score of a bucket row before it is rounded for output: the product of its columns
  \<open>Bucket_TotalOI_Share\<close> and \<open>Bucket_OI_PCR\<close>. Both columns are kept in the emitted
  table, so the product can be read off an emitted row as well.
\<close>

definition raw_score :: "'a bucket_base_scheme \<Rightarrow> pyfloat" where
  "raw_score b = fmul (Bucket_TotalOI_Share b) (Bucket_OI_PCR b)"

text \<open>
  \<open>t[t["Quality_OK"] == True]\<close> under the flag. The table always has the column
  \<open>Quality_OK\<close> here, so the filter depends on the flag \<open>require_quality_ok\<close> alone.
\<close>

definition quality_filtered :: "'a quality_row_scheme list \<Rightarrow> bool \<Rightarrow> 'a quality_row_scheme list" where
  "quality_filtered df require_quality_ok =
     (if require_quality_ok then filter (\<lambda>r. Quality_OK r = True) df else df)"

text \<open>
  The first half of \<open>bucket_term_structure\<close>: the table \<open>out\<close> built by the loop over the
  bands, before the scoring columns are added.
\<close>

definition bucket_rows :: "'a quality_row_scheme list \<Rightarrow> bool \<Rightarrow> bucket_base list" where
  "bucket_rows df require_quality_ok =
     (let t = quality_filtered df require_quality_ok;
          denom_total_oi = rat_of_int (sum_list (map Total_OI t))
      in map (bucket_of t denom_total_oi) buckets)"

text \<open>
  The second half, bucket concentration scoring: the score is the open-interest share
  times the OI put/call ratio, the share of a score is taken in the sum of the scores,
  and both columns are rounded at the end.
\<close>

definition concentration_scoring :: "bucket_base list \<Rightarrow> bucket_row list" where
  "concentration_scoring out =
     (let denom = nansum (map raw_score out)
      in map (\<lambda>b. bucket_base.extend b
                    (bucket_row.fields
                       (round_opt (raw_score b) 8)
                       (round_opt (if 0 < denom then fdiv (raw_score b) (Some denom) else nan) 6)))
             out)"

definition bucket_term_structure :: "'a quality_row_scheme list \<Rightarrow> bool \<Rightarrow> bucket_row list" where
  "bucket_term_structure df require_quality_ok =
     concentration_scoring (bucket_rows df require_quality_ok)"

section \<open>Tables\<close>

text \<open>
  The fixed-metric ranking. The nine projected columns are those of \<open>expiry_row\<close>; the
  order of the columns is presentation only.
\<close>

definition top_expiries_by_oi_pcr :: "'a expiry_row_scheme list \<Rightarrow> int \<Rightarrow> expiry_row list" where
  "top_expiries_by_oi_pcr df top_n =
     (let out = filter (\<lambda>r. OI_PCR r \<noteq> nan) df
      in if out = [] then []
         else map expiry_row.truncate
                (py_head top_n (sort_values (\<lambda>r. fillna0 (OI_PCR r)) False out)))"

definition columns :: "string list" where
  "columns = [''Symbol'', ''Expiry'', ''DTE'', ''Put_Volume'', ''Call_Volume'', ''Volume_PCR'',
     ''Put_OI'', ''Call_OI'', ''OI_PCR'', ''Total_OI'', ''Divergence_Vol_minus_OI'',
     ''Impulse_Vol_over_OI'', ''EventScore_OIshare_x_OI_PCR'', ''Quality_OK'']"

text \<open>
  \<open>_to_num(t[metric])\<close> on a row of the enriched table. The numeric columns are taken as
  they are, the boolean column as 0 and 1; the two text columns go through the external
  numeric parser \<open>str_num\<close>, a parameter, which gives NaN for text that is not a number.
\<close>

definition to_num_col :: "(string \<Rightarrow> pyfloat) \<Rightarrow> string \<Rightarrow> enriched_row \<Rightarrow> pyfloat" where
  "to_num_col str_num metric r =
     (if metric = ''Symbol'' then str_num (Symbol r)
      else if metric = ''Expiry'' then str_num (Expiry r)
      else if metric = ''DTE'' then map_option rat_of_int (DTE r)
      else if metric = ''Put_Volume'' then Some (rat_of_int (Put_Volume r))
      else if metric = ''Call_Volume'' then Some (rat_of_int (Call_Volume r))
      else if metric = ''Volume_PCR'' then Volume_PCR r
      else if metric = ''Put_OI'' then Some (rat_of_int (Put_OI r))
      else if metric = ''Call_OI'' then Some (rat_of_int (Call_OI r))
      else if metric = ''OI_PCR'' then OI_PCR r
      else if metric = ''Total_OI'' then Some (rat_of_int (Total_OI r))
      else if metric = ''Divergence_Vol_minus_OI'' then Divergence_Vol_minus_OI r
      else if metric = ''Impulse_Vol_over_OI'' then Impulse_Vol_over_OI r
      else if metric = ''EventScore_OIshare_x_OI_PCR'' then EventScore_OIshare_x_OI_PCR r
      else if metric = ''Quality_OK'' then Some (if Quality_OK r then 1 else 0)
      else nan)"

text \<open>
  The generic ranking. All fourteen projected columns are present in the enriched table,
  so the projection keeps the whole row. Where the metric is a text column the script
  overwrites it with the parsed numbers; the model leaves the text in the row and ranks
  by the parsed number.
\<close>

definition top_by_metric ::
  "(string \<Rightarrow> pyfloat) \<Rightarrow> enriched_row list \<Rightarrow> string \<Rightarrow> int \<Rightarrow> bool \<Rightarrow> bool
     \<Rightarrow> error + enriched_row list" where
  "top_by_metric str_num df metric top_n descending require_quality_ok =
     (if metric \<notin> set columns then Inl (ValueError (''Metric '' @ [CHR 0x27] @ metric @ [CHR 0x27] @ '' not found''))
      else
        let t = (if require_quality_ok then filter (\<lambda>r. Quality_OK r = True) df else df);
            t = filter (\<lambda>r. to_num_col str_num metric r \<noteq> nan) t
        in if t = [] then Inr t
           else Inr (py_head top_n
                       (sort_values (\<lambda>r. fillna0 (to_num_col str_num metric r)) (\<not> descending) t)))"

section \<open>Example inputs\<close>

text \<open>A contract value is whole when it is missing or an integer, as a contract count is.\<close>

definition whole :: "pyfloat \<Rightarrow> bool" where
  "whole v = (case v of None \<Rightarrow> True | Some x \<Rightarrow> of_int \<lfloor>x\<rfloor> = x)"

definition total_oi_exact :: "expiry_row \<Rightarrow> bool" where
  "total_oi_exact r = (Total_OI r = Put_OI r + Call_OI r)"

text \<open>The expiries of a ticker (after the cap) whose chain is retrieved.\<close>

definition capped :: "ticker \<Rightarrow> int option \<Rightarrow> string list" where
  "capped tk max_expiries =
     (case max_expiries of None \<Rightarrow> options tk | Some m \<Rightarrow> py_head m (options tk))"

definition succeeds :: "ticker \<Rightarrow> string \<Rightarrow> bool" where
  "succeeds tk expiry = (option_chain tk expiry \<noteq> None)"

text \<open>One expiry whose single call and single put each carry half a contract of open interest.\<close>

definition half_chain :: chain where
  "half_chain = \<lparr> calls = [\<lparr> volume = Some 1, openInterest = Some (1 / 2) \<rparr>],
                  puts = [\<lparr> volume = Some 1, openInterest = Some (1 / 2) \<rparr>] \<rparr>"

definition half_yf :: "string \<Rightarrow> ticker" where
  "half_yf symbol =
     \<lparr> options = [''2025-01-17''],
       option_chain = (\<lambda>expiry. if expiry = ''2025-01-17'' then Some half_chain else None) \<rparr>"

text \<open>Three listed expiries; retrieval of the middle one fails.\<close>

definition whole_chain :: chain where
  "whole_chain = \<lparr> calls = [\<lparr> volume = Some 600, openInterest = Some 2000 \<rparr>,
                             \<lparr> volume = None, openInterest = None \<rparr>],
                   puts = [\<lparr> volume = Some 900, openInterest = Some 1000 \<rparr>] \<rparr>"

definition flaky_yf :: "string \<Rightarrow> ticker" where
  "flaky_yf symbol =
     \<lparr> options = [''2025-03-21'', ''2025-02-21'', ''2025-01-17''],
       option_chain = (\<lambda>expiry. if expiry = ''2025-02-21'' then None else Some whole_chain) \<rparr>"

definition dead_yf :: "string \<Rightarrow> ticker" where
  "dead_yf symbol =
     \<lparr> options = [''2025-03-21'', ''2025-02-21''], option_chain = (\<lambda>expiry. None) \<rparr>"

definition whole_row :: "string \<Rightarrow> expiry_row" where
  "whole_row expiry =
     \<lparr> Symbol = ''SPY'', Expiry = expiry, Put_Volume = 900, Call_Volume = 600,
       Volume_PCR = Some (3 / 2), Put_OI = 1000, Call_OI = 2000, OI_PCR = Some (1 / 2),
       Total_OI = 3000 \<rparr>"

definition half_row :: expiry_row where
  "half_row =
     \<lparr> Symbol = ''SPY'', Expiry = ''2025-01-17'', Put_Volume = 1, Call_Volume = 1,
       Volume_PCR = Some 1, Put_OI = 0, Call_OI = 0, OI_PCR = Some 1, Total_OI = 1 \<rparr>"

text \<open>The two expiries of the end-to-end example, A and B.\<close>

definition chain_A :: chain where
  "chain_A = \<lparr> calls = [\<lparr> volume = Some 600, openInterest = Some 2000 \<rparr>],
               puts = [\<lparr> volume = Some 900, openInterest = Some 1000 \<rparr>] \<rparr>"

definition chain_B :: chain where
  "chain_B = \<lparr> calls = [\<lparr> volume = Some 0, openInterest = Some 500 \<rparr>],
               puts = [\<lparr> volume = Some 50, openInterest = Some 2000 \<rparr>] \<rparr>"

definition example_yf :: "string \<Rightarrow> ticker" where
  "example_yf symbol =
     \<lparr> options = [''2025-01-17'', ''2025-02-21''],
       option_chain = (\<lambda>expiry. if expiry = ''2025-01-17'' then Some chain_A
                                else if expiry = ''2025-02-21'' then Some chain_B else None) \<rparr>"

text \<open>A parser that knows one label, and a table with a label it cannot parse.\<close>

definition one_label_parser :: "string \<Rightarrow> int option" where
  "one_label_parser s = (if s = ''2025-01-17'' then Some 739268 else None)"


text \<open>Order of a list of ranked values in the requested direction, with and without ties.\<close>

definition weakly_ordered :: "bool \<Rightarrow> rat list \<Rightarrow> bool" where
  "weakly_ordered descending ks =
     (if descending then sorted_wrt (\<lambda>a b. b \<le> a) ks else sorted_wrt (\<lambda>a b. a \<le> b) ks)"

definition strictly_ordered :: "bool \<Rightarrow> rat list \<Rightarrow> bool" where
  "strictly_ordered descending ks =
     (if descending then sorted_wrt (\<lambda>a b. b < a) ks else sorted_wrt (\<lambda>a b. a < b) ks)"

text \<open>The ranked values of a result of the fixed-metric and of the generic ranking.\<close>

definition oi_pcr_values :: "'a expiry_row_scheme list \<Rightarrow> rat list" where
  "oi_pcr_values rows = map (\<lambda>r. fillna0 (OI_PCR r)) rows"

definition metric_values :: "(string \<Rightarrow> pyfloat) \<Rightarrow> string \<Rightarrow> enriched_row list \<Rightarrow> rat list" where
  "metric_values str_num metric rows = map (\<lambda>r. fillna0 (to_num_col str_num metric r)) rows"

text \<open>Overwriting the quality flag of every row of a table.\<close>

definition with_quality :: "(enriched_row \<Rightarrow> bool) \<Rightarrow> enriched_row list \<Rightarrow> enriched_row list" where
  "with_quality q df = map (\<lambda>r. r\<lparr>Quality_OK := q r\<rparr>) df"

text \<open>
  An enriched table of three expiries: the first and the third share the same \<open>OI_PCR\<close>,
  the second has none; the first fails the quality gate.
\<close>

definition ranked_row :: "string \<Rightarrow> pyfloat \<Rightarrow> bool \<Rightarrow> enriched_row" where
  "ranked_row expiry oi_pcr ok =
     \<lparr> Symbol = ''SPY'', Expiry = expiry, Put_Volume = 900, Call_Volume = 600,
       Volume_PCR = Some (3 / 2), Put_OI = 1000, Call_OI = 2000, OI_PCR = oi_pcr,
       Total_OI = 3000, DTE = Some 30, Divergence_Vol_minus_OI = fsub (Some (3 / 2)) oi_pcr,
       Impulse_Vol_over_OI = nan, Quality_OK = ok, EventScore_OIshare_x_OI_PCR = oi_pcr \<rparr>"

definition tie_table :: "enriched_row list" where
  "tie_table = [ranked_row ''2025-01-17'' (Some (1 / 2)) False,
                ranked_row ''2025-02-21'' nan True,
                ranked_row ''2025-03-21'' (Some (1 / 2)) True]"

definition no_str_num :: "string \<Rightarrow> pyfloat" where
  "no_str_num s = nan"

definition pass_all :: "enriched_row \<Rightarrow> bool" where
  "pass_all r = True"

text \<open>
  An enriched table for the buckets: one expiry in the short band, one in the middle band
  and one past every band, all passing the quality gate; no expiry is in the long band.
\<close>

definition bucket_table :: "enriched_row list" where
  "bucket_table = [(ranked_row ''2025-01-17'' (Some (1 / 2)) True)\<lparr>DTE := Some 5\<rparr>,
                   ranked_row ''2025-02-21'' (Some (1 / 2)) True,
                   (ranked_row ''2025-09-19'' (Some (1 / 2)) True)\<lparr>DTE := Some 200\<rparr>]"

text \<open>A days-to-expiry value that lies in none of the bands.\<close>

definition outside_all_bands :: "int option \<Rightarrow> bool" where
  "outside_all_bands d = list_all (\<lambda>(name, lo, hi). \<not> in_band lo hi d) buckets"

text \<open>The total open interest of the rows of a table that fall in a band.\<close>

definition band_total_oi :: "'a quality_row_scheme list \<Rightarrow> int \<Rightarrow> int \<Rightarrow> int" where
  "band_total_oi t lo hi = sum_list (map Total_OI (filter (\<lambda>r. in_band lo hi (DTE r)) t))"

text \<open>Two expiries inside the bands and one past them, all passing the quality gate.\<close>

definition near_rows :: "enriched_row list" where
  "near_rows = [(ranked_row ''2025-01-17'' (Some (1 / 2)) True)\<lparr>DTE := Some 5\<rparr>,
                ranked_row ''2025-02-21'' (Some (1 / 2)) True]"

definition far_row :: enriched_row where
  "far_row = (ranked_row ''2025-09-19'' (Some (1 / 2)) True)\<lparr>DTE := Some 200\<rparr>"

text \<open>An expiry inside the middle band that fails the quality gate.\<close>

definition low_row :: enriched_row where
  "low_row = ranked_row ''2025-02-14'' (Some (1 / 2)) False"







section \<open>Arithmetic with missing values\<close>

lemma isfinite_simps [simp]: "isfinite (Some x)" "\<not> isfinite nan"
  by (simp_all add: isfinite_def)

lemma fillna0_simps [simp]: "fillna0 (Some x) = x" "fillna0 nan = 0"
  by (simp_all add: fillna0_def)

lemma fpos_simps [simp]: "fpos (Some x) = (0 < x)" "\<not> fpos nan"
  by (simp_all add: fpos_def)

lemma fsub_simps [simp]:
  "fsub (Some x) (Some y) = Some (x - y)" "fsub nan b = nan" "fsub a nan = nan"
  by (simp_all add: fsub_def split: option.splits)

lemma fmul_simps [simp]:
  "fmul (Some x) (Some y) = Some (x * y)" "fmul nan b = nan" "fmul a nan = nan"
  by (simp_all add: fmul_def split: option.splits)

lemma fdiv_simps [simp]:
  "fdiv (Some x) (Some y) = Some (x / y)" "fdiv nan b = nan" "fdiv a nan = nan"
  by (simp_all add: fdiv_def split: option.splits)

lemma round_opt_simps [simp]:
  "round_opt (Some x) n = Some (round_nd x n)" "round_opt nan n = nan"
  by (simp_all add: round_opt_def)

lemma round_opt_eq_nan [simp]: "round_opt v n = nan \<longleftrightarrow> v = nan"
  by (cases v) simp_all

section \<open>Rounding\<close>

lemma py_round_of_int: "py_round (of_int n) = n"
  by (simp add: py_round_def)


lemma whole_sum: "\<forall>c \<in> set frame. whole (col c) \<Longrightarrow> \<exists>n::int. col_sum col frame = of_int n"
proof (induction frame)
  case Nil
  show ?case by (simp add: col_sum_def)
next
  case (Cons c frame)
  then obtain n :: int where n: "col_sum col frame = of_int n"
    by auto
  from Cons.prems have "whole (col c)" by simp
  then obtain k :: int where k: "fillna0 (col c) = of_int k"
    by (cases "col c") (auto simp: whole_def fillna0_def intro: exI [of _ 0] dest: sym)
  have "col_sum col (c # frame) = of_int (k + n)"
    using n k by (simp add: col_sum_def)
  then show ?case by blast
qed

section \<open>The aggregation loop\<close>

lemma totals_loop_eq:
  "totals_loop tk symbol exps (rows, used) =
     (rows @ map (\<lambda>e. chain_row symbol e (the (option_chain tk e))) (filter (succeeds tk) exps),
      used + length (filter (succeeds tk) exps))"
  by (induction exps arbitrary: rows used) (auto simp: succeeds_def)

lemma per_expiry_totals_Inr:
  assumes "per_expiry_totals yf symbol m = Inr (df, meta)"
  shows "set df = (\<lambda>e. chain_row symbol e (the (option_chain (yf symbol) e))) `
           set (filter (succeeds (yf symbol)) (capped (yf symbol) m))"
    and "length df = length (filter (succeeds (yf symbol)) (capped (yf symbol) m))"
    and "Expiries_Used meta = length (filter (succeeds (yf symbol)) (capped (yf symbol) m))"
    and "Expiries_Requested meta = length (capped (yf symbol) m)"
  using assms
  by (auto simp: per_expiry_totals_def Let_def totals_loop_eq capped_def sort_values_def
      split: if_splits option.splits)

lemma partial_sums_in_range:
  assumes "\<forall>c \<in> set frame. whole (col c) \<and> 0 \<le> fillna0 (col c)"
  shows "\<exists>n::int. sum_list (nths (map (\<lambda>c. fillna0 (col c)) frame) I) = of_int n
           \<and> 0 \<le> n \<and> of_int n \<le> col_sum col frame"
  using assms
proof (induction frame arbitrary: I)
  case Nil
  show ?case by (simp add: col_sum_def)
next
  case (Cons c frame)
  let ?J = "{j. Suc j \<in> I}"
  from Cons.prems have rest: "\<forall>c \<in> set frame. whole (col c) \<and> 0 \<le> fillna0 (col c)"
    by simp
  from Cons.IH [OF rest, of ?J]
  obtain n :: int where n: "sum_list (nths (map (\<lambda>c. fillna0 (col c)) frame) ?J) = of_int n"
      "0 \<le> n" "of_int n \<le> col_sum col frame"
    by blast
  from Cons.prems have "whole (col c)" and c0: "0 \<le> fillna0 (col c)"
    by simp_all
  then obtain k :: int where k: "fillna0 (col c) = of_int k"
    by (cases "col c") (auto simp: whole_def fillna0_def intro: exI [of _ 0] dest: sym)
  with c0 have k0: "0 \<le> k"
    by simp
  have sum: "col_sum col (c # frame) = of_int k + col_sum col frame"
    using k by (simp add: col_sum_def)
  show ?case
  proof (cases "0 \<in> I")
    case True
    then have "sum_list (nths (map (\<lambda>c. fillna0 (col c)) (c # frame)) I) = of_int (k + n)"
      using n(1) k by (simp add: nths_Cons)
    moreover have "0 \<le> k + n"
      using k0 n(2) by simp
    moreover have "rat_of_int (k + n) \<le> col_sum col (c # frame)"
      using n(3) sum by simp
    ultimately show ?thesis by blast
  next
    case False
    then have "sum_list (nths (map (\<lambda>c. fillna0 (col c)) (c # frame)) I) = of_int n"
      using n(1) by (simp add: nths_Cons)
    moreover have "rat_of_int n \<le> col_sum col (c # frame)"
      using n(3) sum k k0 by simp
    ultimately show ?thesis
      using n(2) by blast
  qed
qed

section \<open>Properties of the raw aggregation\<close>

text \<open>
  C5, as the code has it. The row stores \<open>int(round(p_oi + c_oi))\<close>, the rounded float
  sum, not the sum of the two stored integers. Let every per-contract open interest be
  missing or a non-negative whole number, and let the open interest of the calls and
  the puts of every chain add up to at most \<open>2 ^ 53\<close>. Then every row of the aggregation
  has \<open>Total_OI = Put_OI + Call_OI\<close> exactly. Under these conditions every sum the
  float64 code forms on the way, in whatever order, is a whole number between 0 and
  \<open>2 ^ 53\<close> (\<open>partial_sums_in_range\<close>) and so is exact in float64: the exact sums of the
  model are the sums of the program. Past \<open>2 ^ 53\<close> the float64 sum is rounded and the
  equality can fail.
\<close>

theorem total_oi_is_sum_for_whole_counts:
  assumes "per_expiry_totals yf symbol m = Inr (df, meta)"
    and "\<forall>e \<in> set (options (yf symbol)). \<forall>ch. option_chain (yf symbol) e = Some ch \<longrightarrow>
           (\<forall>c \<in> set (calls ch) \<union> set (puts ch).
              whole (openInterest c) \<and> 0 \<le> fillna0 (openInterest c))
           \<and> col_sum openInterest (calls ch) + col_sum openInterest (puts ch) \<le> 2 ^ 53"
    and "r \<in> set df"
  shows "Total_OI r = Put_OI r + Call_OI r"
proof -
  let ?tk = "yf symbol"
  from per_expiry_totals_Inr(1) [OF assms(1)] assms(3)
  obtain e where e: "e \<in> set (capped ?tk m)" "succeeds ?tk e"
    and r: "r = chain_row symbol e (the (option_chain ?tk e))"
    by auto
  from e(2) obtain ch where ch: "option_chain ?tk e = Some ch"
    by (auto simp: succeeds_def)
  have "set (capped ?tk m) \<subseteq> set (options ?tk)"
    by (auto simp: capped_def py_head_def split: option.splits dest: in_set_takeD)
  with e(1) have "e \<in> set (options ?tk)" by blast
  with assms(2) ch have w: "\<forall>c \<in> set (calls ch) \<union> set (puts ch). whole (openInterest c)"
    by blast
  obtain p :: int where p: "col_sum openInterest (puts ch) = of_int p"
    using whole_sum [of "puts ch" openInterest] w by auto
  obtain c :: int where c: "col_sum openInterest (calls ch) = of_int c"
    using whole_sum [of "calls ch" openInterest] w by auto
  have "py_round (of_int p + of_int c) = p + c"
    using py_round_of_int [of "p + c"] by simp
  then show ?thesis
    using r ch p c by (simp add: chain_row_def Let_def py_round_of_int)
qed

theorem total_oi_is_sum_for_whole_counts_witness:
  "per_expiry_totals flaky_yf ''SPY'' None =
     Inr ([whole_row ''2025-01-17'', whole_row ''2025-03-21''],
          \<lparr> Expiries_Used = 2, Expiries_Requested = 3 \<rparr>)
   \<and> col_sum openInterest (calls whole_chain) + col_sum openInterest (puts whole_chain) \<le> 2 ^ 53
   \<and> Total_OI (whole_row ''2025-03-21'') =
       Put_OI (whole_row ''2025-03-21'') + Call_OI (whole_row ''2025-03-21'')"
proof -
  have run: "per_expiry_totals flaky_yf ''SPY'' None =
     Inr ([whole_row ''2025-01-17'', whole_row ''2025-03-21''],
          \<lparr> Expiries_Used = 2, Expiries_Requested = 3 \<rparr>)"
    by code_simp
  have bound: "col_sum openInterest (calls whole_chain) + col_sum openInterest (puts whole_chain) \<le> 2 ^ 53"
    by (simp add: whole_chain_def col_sum_def)
  have w: "\<forall>e \<in> set (options (flaky_yf ''SPY'')). \<forall>ch. option_chain (flaky_yf ''SPY'') e = Some ch \<longrightarrow>
           (\<forall>c \<in> set (calls ch) \<union> set (puts ch).
              whole (openInterest c) \<and> 0 \<le> fillna0 (openInterest c))
           \<and> col_sum openInterest (calls ch) + col_sum openInterest (puts ch) \<le> 2 ^ 53"
    using bound by (auto simp: flaky_yf_def whole_chain_def whole_def split: if_splits)
  have "whole_row ''2025-03-21'' \<in> set [whole_row ''2025-01-17'', whole_row ''2025-03-21'']"
    by simp
  from total_oi_is_sum_for_whole_counts [OF run w this] run bound show ?thesis
    by blast
qed

text \<open>
  C5 as stated, for any non-negative inputs, fails: with half a contract of open interest
  on each side the row stores \<open>Put_OI = 0\<close>, \<open>Call_OI = 0\<close> and \<open>Total_OI = 1\<close>.
\<close>

theorem total_oi_drifts_on_fractions:
  "per_expiry_totals half_yf ''SPY'' None =
     Inr ([half_row], \<lparr> Expiries_Used = 1, Expiries_Requested = 1 \<rparr>)
   \<and> \<not> total_oi_exact half_row"
proof -
  have "per_expiry_totals half_yf ''SPY'' None =
     Inr ([half_row], \<lparr> Expiries_Used = 1, Expiries_Requested = 1 \<rparr>)"
    by code_simp
  moreover have "\<not> total_oi_exact half_row"
    by (simp add: total_oi_exact_def half_row_def)
  ultimately show ?thesis by blast
qed

text \<open>
  C6. An expiry whose retrieval or computation fails is skipped and the loop goes on:
  when at least one expiry (of those kept by the cap) succeeds, the table holds exactly
  the rows of the succeeding expiries, one each, sorted by expiry label; \<open>Expiries_Used\<close> counts the
  succeeding expiries, \<open>Expiries_Requested\<close> counts all the expiries kept by the cap, and so
  exceeds \<open>Expiries_Used\<close> by the number of skipped ones. When no expiry succeeds the
  result is a \<open>RuntimeError\<close>, never an empty table.
\<close>

theorem failed_expiries_are_skipped:
  "(filter (succeeds (yf symbol)) (capped (yf symbol) m) = [] \<longrightarrow>
      per_expiry_totals yf symbol m =
        Inl (RuntimeError ((if options (yf symbol) = [] then ''No option expirations for ''
                            else ''No chain data aggregated for '') @ symbol)))
   \<and> (filter (succeeds (yf symbol)) (capped (yf symbol) m) \<noteq> [] \<longrightarrow>
      (\<exists>df meta. per_expiry_totals yf symbol m = Inr (df, meta)
         \<and> df \<noteq> []
         \<and> df = sort_key Expiry
                  (map (\<lambda>e. chain_row symbol e (the (option_chain (yf symbol) e)))
                     (filter (succeeds (yf symbol)) (capped (yf symbol) m)))
         \<and> sorted (map Expiry df)
         \<and> length df = length (filter (succeeds (yf symbol)) (capped (yf symbol) m))
         \<and> Expiries_Used meta = length (filter (succeeds (yf symbol)) (capped (yf symbol) m))
         \<and> Expiries_Requested meta = length (capped (yf symbol) m)
         \<and> Expiries_Requested meta =
             Expiries_Used meta + length (filter (\<lambda>e. \<not> succeeds (yf symbol) e) (capped (yf symbol) m))))"
proof -
  let ?tk = "yf symbol"
  let ?ok = "filter (succeeds ?tk) (capped ?tk m)"
  let ?row = "\<lambda>e. chain_row symbol e (the (option_chain ?tk e))"
  have cap_nil: "options ?tk = [] \<Longrightarrow> capped ?tk m = []"
    by (simp add: capped_def py_head_def split: option.splits)
  have count: "length (capped ?tk m) = length ?ok + length (filter (\<lambda>e. \<not> succeeds ?tk e) (capped ?tk m))"
    using sum_length_filter_compl [of "succeeds ?tk" "capped ?tk m"] by simp
  show ?thesis
  proof (intro conjI impI)
    assume "?ok = []"
    then show "per_expiry_totals yf symbol m =
        Inl (RuntimeError ((if options ?tk = [] then ''No option expirations for ''
                            else ''No chain data aggregated for '') @ symbol))"
      by (auto simp: per_expiry_totals_def Let_def totals_loop_eq capped_def split: option.splits)
  next
    assume ok: "?ok \<noteq> []"
    then have "options ?tk \<noteq> []"
      using cap_nil by auto
    with ok have "per_expiry_totals yf symbol m =
        Inr (sort_key Expiry (map ?row ?ok),
             \<lparr> Expiries_Used = length ?ok, Expiries_Requested = length (capped ?tk m) \<rparr>)"
      by (auto simp: per_expiry_totals_def Let_def totals_loop_eq capped_def sort_values_def
          split: option.splits)
    moreover have "sort_key Expiry (map ?row ?ok) \<noteq> []"
      using ok by (metis length_sort length_map length_0_conv)
    ultimately show "\<exists>df meta. per_expiry_totals yf symbol m = Inr (df, meta)
         \<and> df \<noteq> []
         \<and> df = sort_key Expiry (map ?row ?ok)
         \<and> sorted (map Expiry df)
         \<and> length df = length ?ok
         \<and> Expiries_Used meta = length ?ok
         \<and> Expiries_Requested meta = length (capped ?tk m)
         \<and> Expiries_Requested meta =
             Expiries_Used meta + length (filter (\<lambda>e. \<not> succeeds ?tk e) (capped ?tk m))"
      using count by simp
  qed
qed

theorem failed_expiries_are_skipped_witness:
  "filter (succeeds (flaky_yf ''SPY'')) (capped (flaky_yf ''SPY'') None) = [''2025-03-21'', ''2025-01-17'']
   \<and> (\<exists>df meta. per_expiry_totals flaky_yf ''SPY'' None = Inr (df, meta)
         \<and> length df = 2 \<and> Expiries_Used meta = 2 \<and> Expiries_Requested meta = 3)
   \<and> filter (succeeds (dead_yf ''SPY'')) (capped (dead_yf ''SPY'') None) = []
   \<and> per_expiry_totals dead_yf ''SPY'' None = Inl (RuntimeError ''No chain data aggregated for SPY'')"
proof -
  have ok: "filter (succeeds (flaky_yf ''SPY'')) (capped (flaky_yf ''SPY'') None) = [''2025-03-21'', ''2025-01-17'']"
    by (simp add: flaky_yf_def capped_def succeeds_def)
  have cap: "capped (flaky_yf ''SPY'') None = [''2025-03-21'', ''2025-02-21'', ''2025-01-17'']"
    by (simp add: flaky_yf_def capped_def)
  have none: "filter (succeeds (dead_yf ''SPY'')) (capped (dead_yf ''SPY'') None) = []"
    by (simp add: dead_yf_def capped_def succeeds_def)
  have opts: "options (dead_yf ''SPY'') \<noteq> []"
    by (simp add: dead_yf_def)
  from failed_expiries_are_skipped [of flaky_yf "''SPY''" None] ok cap
  have "\<exists>df meta. per_expiry_totals flaky_yf ''SPY'' None = Inr (df, meta)
         \<and> length df = 2 \<and> Expiries_Used meta = 2 \<and> Expiries_Requested meta = 3"
    by auto
  moreover from failed_expiries_are_skipped [of dead_yf "''SPY''" None] none opts
  have "per_expiry_totals dead_yf ''SPY'' None = Inl (RuntimeError ''No chain data aggregated for SPY'')"
    by simp
  ultimately show ?thesis
    using ok none by blast
qed

section \<open>The end-to-end example\<close>

text \<open>
  C1. On the two-expiry input A (call volume 600, put volume 900, call OI 2000, put OI
  1000) and B (call volume 0, put volume 50, call OI 500, put OI 2000), whatever the
  as-of date and the day numbers the parser gives the two labels, the pipeline returns
  the rows of A and B in this order with \<open>Volume_PCR\<close> 1.5 and NaN, \<open>OI_PCR\<close> 0.5 and 4,
  impulse 3 and NaN; the total open interest of the table is 5500; the event scores are
  \<open>round((3000/5500) * 0.5, 8) = 0.27272727\<close> and \<open>round((2500/5500) * 4, 8) = 1.81818182\<close>.
\<close>

theorem end_to_end_example:
  "\<exists>df meta.
     enrich_per_expiry example_yf (\<lambda>s. Some (day_of s)) today ''SPY'' None = Inr (df, meta)
     \<and> map Expiry df = [''2025-01-17'', ''2025-02-21'']
     \<and> map Volume_PCR df = [Some (3 / 2), nan]
     \<and> map OI_PCR df = [Some (1 / 2), Some 4]
     \<and> map Impulse_Vol_over_OI df = [Some 3, nan]
     \<and> map Total_OI df = [3000, 2500]
     \<and> sum_list (map Total_OI df) = 5500
     \<and> map EventScore_OIshare_x_OI_PCR df =
         [Some (round_nd ((3000 / 5500) * (1 / 2)) 8), Some (round_nd ((2500 / 5500) * 4) 8)]
     \<and> round_nd ((3000 / 5500) * (1 / 2)) 8 = 27272727 / 100000000
     \<and> round_nd ((2500 / 5500) * 4) 8 = 181818182 / 100000000"
proof -
  have base: "per_expiry_totals example_yf ''SPY'' None =
     Inr ([\<lparr> Symbol = ''SPY'', Expiry = ''2025-01-17'', Put_Volume = 900, Call_Volume = 600,
              Volume_PCR = Some (3 / 2), Put_OI = 1000, Call_OI = 2000, OI_PCR = Some (1 / 2),
              Total_OI = 3000 \<rparr>,
           \<lparr> Symbol = ''SPY'', Expiry = ''2025-02-21'', Put_Volume = 50, Call_Volume = 0,
              Volume_PCR = nan, Put_OI = 2000, Call_OI = 500, OI_PCR = Some 4,
              Total_OI = 2500 \<rparr>],
          \<lparr> Expiries_Used = 2, Expiries_Requested = 2 \<rparr>)"
    by code_simp
  have r3: "round_nd 3 6 = 3"
    by code_simp
  have r1: "round_nd 1 6 = 1"
    by code_simp
  have rA: "round_nd (3 / 11) 8 = 27272727 / 100000000"
    by code_simp
  have rB: "round_nd (20 / 11) 8 = 181818182 / 100000000"
    by code_simp
  have run: "enrich_per_expiry example_yf (\<lambda>s. Some (day_of s)) today ''SPY'' None =
     Inr ([\<lparr> Symbol = ''SPY'', Expiry = ''2025-01-17'', Put_Volume = 900, Call_Volume = 600,
              Volume_PCR = Some (3 / 2), Put_OI = 1000, Call_OI = 2000, OI_PCR = Some (1 / 2),
              Total_OI = 3000, DTE = Some (day_of ''2025-01-17'' - today),
              Divergence_Vol_minus_OI = Some 1, Impulse_Vol_over_OI = Some 3,
              Quality_OK = False,
              EventScore_OIshare_x_OI_PCR = Some (27272727 / 100000000) \<rparr>,
           \<lparr> Symbol = ''SPY'', Expiry = ''2025-02-21'', Put_Volume = 50, Call_Volume = 0,
              Volume_PCR = nan, Put_OI = 2000, Call_OI = 500, OI_PCR = Some 4,
              Total_OI = 2500, DTE = Some (day_of ''2025-02-21'' - today),
              Divergence_Vol_minus_OI = nan, Impulse_Vol_over_OI = nan,
              Quality_OK = False,
              EventScore_OIshare_x_OI_PCR = Some (181818182 / 100000000) \<rparr>],
          \<lparr> Expiries_Used = 2, Expiries_Requested = 2 \<rparr>)"
    unfolding enrich_per_expiry_def base
    by (simp add: add_dte_def dt_date_def add_flow_vs_positioning_def add_quality_flags_def
        add_event_score_def expiry_row.defs dte_row.defs flow_row.defs quality_row.defs
        enriched_row.defs Let_def r3 r1 rA rB MIN_CALL_OI_def MIN_CALL_VOL_def MIN_TOTAL_OI_def)
  show ?thesis
    unfolding run by (simp add: rA rB)
qed

section \<open>Days to expiry\<close>

lemma map_result_Inr:
  "(\<And>x. x \<in> set xs \<Longrightarrow> f x = Inr (g x)) \<Longrightarrow> map_result f xs = Inr (map g xs)"
  by (induction xs) simp_all

lemma map_result_Inl:
  assumes "x \<in> set xs" and "f x = Inl e" and "\<forall>y \<in> set xs. \<forall>e'. f y = Inl e' \<longrightarrow> e' = e"
  shows "map_result f xs = Inl e"
  using assms
proof (induction xs)
  case Nil
  then show ?case by simp
next
  case (Cons a xs)
  show ?case
  proof (cases "f a")
    case (Inl e')
    with Cons.prems(3) have "e' = e" by simp
    with Inl show ?thesis by simp
  next
    case (Inr z)
    with Cons.prems(1,2) have x: "x \<in> set xs" by auto
    from Cons.prems(3) have "\<forall>y \<in> set xs. \<forall>e'. f y = Inl e' \<longrightarrow> e' = e" by simp
    from Cons.IH [OF x Cons.prems(2) this] have "map_result f xs = Inl e" .
    with Inr show ?thesis by simp
  qed
qed

text \<open>
  Where every expiry label parses, the DTE pass returns the table with, in each row, the
  number of days from the as-of date to the expiry date; the number is negative for an
  expiry in the past.
\<close>

lemma add_dte_parsed:
  assumes "\<forall>r \<in> set df. to_datetime (Expiry r) \<noteq> None"
  shows "add_dte to_datetime today df asof =
           Inr (map (\<lambda>r. expiry_row.extend r
                          (dte_row.fields
                             (Some (the (to_datetime (Expiry r))
                                    - (case asof of Some d \<Rightarrow> d | None \<Rightarrow> today)))))
                  df)"
  unfolding add_dte_def Let_def
  by (rule map_result_Inr) (use assms in \<open>auto simp: dt_date_def\<close>)

lemma add_dte_unparsed:
  assumes "r \<in> set df" and "to_datetime (Expiry r) = None"
  shows "add_dte to_datetime today df asof = Inl TypeError"
  unfolding add_dte_def Let_def
proof (rule map_result_Inl [OF assms(1)])
  show "(case days_from (case asof of None \<Rightarrow> today | Some d \<Rightarrow> d) (dt_date to_datetime (Expiry r)) of
          Inl e \<Rightarrow> Inl e
        | Inr d \<Rightarrow> Inr (expiry_row.extend r (dte_row.fields d))) = Inl TypeError"
    using assms(2) by (simp add: dt_date_def)
  show "\<forall>y \<in> set df. \<forall>e'.
          (case days_from (case asof of None \<Rightarrow> today | Some d \<Rightarrow> d) (dt_date to_datetime (Expiry y)) of
             Inl e \<Rightarrow> Inl e
           | Inr d \<Rightarrow> Inr (expiry_row.extend y (dte_row.fields d))) = Inl e' \<longrightarrow> e' = TypeError"
    by (auto simp: dt_date_def split: option.splits)
qed

text \<open>
  C8 at a failing input. The table has one parseable and one unparseable expiry label.
  The unparseable one reaches the mapped function as \<open>NaT\<close>, which the test
  \<open>x is not None\<close> lets through, and the subtraction raises: the pass returns no table
  at all, instead of a table whose second row has a NaN DTE.
\<close>

theorem add_dte_raises_on_unparseable_expiry:
  "add_dte one_label_parser 739238 [whole_row ''2025-01-17'', whole_row ''next Friday''] None
     = Inl TypeError"
  by (simp add: add_dte_def dt_date_def one_label_parser_def whole_row_def)

section \<open>Flow against positioning\<close>





section \<open>Ranking\<close>

lemma py_head_length: "0 \<le> n \<Longrightarrow> length (py_head n xs) \<le> nat n"
  by (simp add: py_head_def)

lemma set_py_head: "set (py_head n xs) \<subseteq> set xs"
  by (simp add: py_head_def set_take_subset)

lemma py_head_all: "int (length xs) \<le> n \<Longrightarrow> py_head n xs = xs"
  by (simp add: py_head_def)

lemma py_head_map: "py_head n (map f xs) = map f (py_head n xs)"
  by (simp add: py_head_def take_map)

lemma sorted_wrt_py_head: "sorted_wrt R xs \<Longrightarrow> sorted_wrt R (py_head n xs)"
  by (simp add: py_head_def)

lemma set_sort_values [simp]: "set (sort_values key ascending xs) = set xs"
  by (simp add: sort_values_def)

lemma length_sort_values [simp]: "length (sort_values key ascending xs) = length xs"
  by (simp add: sort_values_def)

lemma sort_values_ordered:
  "weakly_ordered (\<not> ascending) (map key (sort_values key ascending xs))"
proof (cases ascending)
  case True
  then show ?thesis
    by (simp add: weakly_ordered_def sort_values_def)
next
  case False
  have "sorted_wrt (\<lambda>a b. b \<le> a) (rev (map key (sort_key key (rev xs))))"
    unfolding sorted_wrt_rev by simp
  with False show ?thesis
    by (simp add: weakly_ordered_def sort_values_def rev_map)
qed

lemma weakly_ordered_py_head:
  "weakly_ordered d (map key xs) \<Longrightarrow> weakly_ordered d (map key (py_head n xs))"
  unfolding weakly_ordered_def py_head_map [symmetric]
  by (auto intro: sorted_wrt_py_head)

lemma insort_key_map: "insort_key k (u x) (map u ys) = map u (insort_key (\<lambda>r. k (u r)) x ys)"
  by (induction ys) simp_all

lemma sort_key_map: "sort_key k (map u xs) = map u (sort_key (\<lambda>r. k (u r)) xs)"
  by (induction xs) (simp_all add: insort_key_map)

lemma sort_values_map:
  "sort_values k a (map u xs) = map u (sort_values (\<lambda>r. k (u r)) a xs)"
  by (simp add: sort_values_def sort_key_map rev_map)

lemma top_expiries_eq:
  "top_expiries_by_oi_pcr df top_n =
     map expiry_row.truncate
       (py_head top_n (sort_values (\<lambda>r. fillna0 (OI_PCR r)) False (filter (\<lambda>r. OI_PCR r \<noteq> nan) df)))"
  by (simp add: top_expiries_by_oi_pcr_def Let_def sort_values_def py_head_def)

lemma truncate_OI_PCR [simp]: "OI_PCR (expiry_row.truncate r) = OI_PCR r"
  by (simp add: expiry_row.defs)

lemma top_by_metric_eq:
  "metric \<in> set columns \<Longrightarrow>
   top_by_metric str_num df metric top_n descending rq =
     Inr (py_head top_n
            (sort_values (\<lambda>r. fillna0 (to_num_col str_num metric r)) (\<not> descending)
               (filter (\<lambda>r. to_num_col str_num metric r \<noteq> nan)
                  (if rq then filter (\<lambda>r. Quality_OK r = True) df else df))))"
  by (simp add: top_by_metric_def Let_def sort_values_def py_head_def)

text \<open>
  C3, as the code has it. For a non-negative \<open>top_n\<close>, both rankings return at most
  \<open>top_n\<close> rows, none with NaN in the ranked metric, ordered by the metric in the
  requested direction, rows with equal values being allowed next to each other. The
  generic ranking returns a table for every metric that names a column.
\<close>

theorem ranking_bounded_clean_ordered:
  fixes df :: "enriched_row list"
  assumes "0 \<le> top_n"
  shows "length (top_expiries_by_oi_pcr df top_n) \<le> nat top_n
       \<and> (\<forall>r \<in> set (top_expiries_by_oi_pcr df top_n). OI_PCR r \<noteq> nan)
       \<and> weakly_ordered True (oi_pcr_values (top_expiries_by_oi_pcr df top_n))
       \<and> (metric \<in> set columns \<longrightarrow>
            (\<exists>res. top_by_metric str_num df metric top_n descending rq = Inr res
               \<and> length res \<le> nat top_n
               \<and> (\<forall>r \<in> set res. to_num_col str_num metric r \<noteq> nan)
               \<and> weakly_ordered descending (metric_values str_num metric res)))"
proof -
  let ?k = "\<lambda>r::enriched_row. fillna0 (OI_PCR r)"
  let ?out = "filter (\<lambda>r. OI_PCR r \<noteq> nan) df"
  let ?top = "py_head top_n (sort_values ?k False ?out)"
  have a: "length (top_expiries_by_oi_pcr df top_n) \<le> nat top_n"
    using assms by (simp add: top_expiries_eq py_head_length)
  have "set ?top \<subseteq> set ?out"
    using set_py_head [of top_n "sort_values ?k False ?out"] by simp
  then have b: "\<forall>r \<in> set (top_expiries_by_oi_pcr df top_n). OI_PCR r \<noteq> nan"
    by (auto simp: top_expiries_eq)
  have "weakly_ordered True (map ?k ?top)"
    using sort_values_ordered [of False ?k ?out] by (intro weakly_ordered_py_head) simp
  then have c: "weakly_ordered True (oi_pcr_values (top_expiries_by_oi_pcr df top_n))"
    by (simp add: oi_pcr_values_def top_expiries_eq comp_def)
  have d: "\<exists>res. top_by_metric str_num df metric top_n descending rq = Inr res
               \<and> length res \<le> nat top_n
               \<and> (\<forall>r \<in> set res. to_num_col str_num metric r \<noteq> nan)
               \<and> weakly_ordered descending (metric_values str_num metric res)"
    if m: "metric \<in> set columns"
  proof -
    let ?m = "\<lambda>r. fillna0 (to_num_col str_num metric r)"
    let ?t = "filter (\<lambda>r. to_num_col str_num metric r \<noteq> nan)
                (if rq then filter (\<lambda>r. Quality_OK r = True) df else df)"
    let ?res = "py_head top_n (sort_values ?m (\<not> descending) ?t)"
    have r: "top_by_metric str_num df metric top_n descending rq = Inr ?res"
      by (rule top_by_metric_eq [OF m])
    have l: "length ?res \<le> nat top_n"
      using assms by (rule py_head_length)
    have "set ?res \<subseteq> set ?t"
      using set_py_head [of top_n "sort_values ?m (\<not> descending) ?t"] by simp
    then have n: "\<forall>r \<in> set ?res. to_num_col str_num metric r \<noteq> nan"
      by auto
    have "weakly_ordered descending (map ?m ?res)"
      using sort_values_ordered [of "\<not> descending" ?m ?t] by (intro weakly_ordered_py_head) simp
    then have "weakly_ordered descending (metric_values str_num metric ?res)"
      by (simp add: metric_values_def)
    with r l n show ?thesis by blast
  qed
  from a b c d show ?thesis by blast
qed

lemma tie_table_top: "oi_pcr_values (top_expiries_by_oi_pcr tie_table 5) = [1 / 2, 1 / 2]"
  by code_simp

theorem ranking_bounded_clean_ordered_witness:
  "(0::int) \<le> 5
   \<and> length (top_expiries_by_oi_pcr tie_table 5) \<le> 5
   \<and> weakly_ordered True (oi_pcr_values (top_expiries_by_oi_pcr tie_table 5))
   \<and> ''OI_PCR'' \<in> set columns
   \<and> (\<exists>res. top_by_metric no_str_num tie_table ''OI_PCR'' 5 False True = Inr res
         \<and> length res \<le> 5
         \<and> weakly_ordered False (metric_values no_str_num ''OI_PCR'' res))"
proof -
  have c: "''OI_PCR'' \<in> set columns"
    by (simp add: columns_def)
  have z: "(0::int) \<le> 5"
    by simp
  note t = ranking_bounded_clean_ordered [OF z, of tie_table "''OI_PCR''" no_str_num False True]
  from t have "length (top_expiries_by_oi_pcr tie_table 5) \<le> 5"
    by simp
  moreover from t have "weakly_ordered True (oi_pcr_values (top_expiries_by_oi_pcr tie_table 5))"
    by (elim conjE)
  moreover have "\<exists>res. top_by_metric no_str_num tie_table ''OI_PCR'' 5 False True = Inr res
         \<and> length res \<le> 5
         \<and> weakly_ordered False (metric_values no_str_num ''OI_PCR'' res)"
  proof -
    from t c obtain res where r: "top_by_metric no_str_num tie_table ''OI_PCR'' 5 False True = Inr res"
        "length res \<le> nat 5" "weakly_ordered False (metric_values no_str_num ''OI_PCR'' res)"
      by blast
    from r(2) have "length res \<le> 5" by simp
    with r(1,3) show ?thesis by blast
  qed
  ultimately show ?thesis
    using c z by blast
qed

text \<open>
  C3 as stated fails twice. The order is not strict: two expiries with the same \<open>OI_PCR\<close>
  are both returned. And a negative \<open>top_n\<close> does not bound the result: \<open>head(-1)\<close>
  drops the last row and keeps the others.
\<close>

theorem ranking_keeps_ties_and_negative_top_n:
  "oi_pcr_values (top_expiries_by_oi_pcr tie_table 5) = [1 / 2, 1 / 2]
   \<and> \<not> strictly_ordered True (oi_pcr_values (top_expiries_by_oi_pcr tie_table 5))
   \<and> length (top_expiries_by_oi_pcr tie_table (- 1)) = 1
   \<and> \<not> int (length (top_expiries_by_oi_pcr tie_table (- 1))) \<le> - 1"
proof -
  have l: "length (top_expiries_by_oi_pcr tie_table (- 1)) = 1"
    by code_simp
  have s: "\<not> strictly_ordered True [1 / 2, 1 / 2]"
    by code_simp
  have n: "\<not> int (length (top_expiries_by_oi_pcr tie_table (- 1))) \<le> - 1"
    unfolding l by simp
  from s have "\<not> strictly_ordered True (oi_pcr_values (top_expiries_by_oi_pcr tie_table 5))"
    unfolding tie_table_top .
  with tie_table_top l n show ?thesis
    by (intro conjI)
qed

text \<open>
  C9. The fixed-metric ranking does not look at \<open>Quality_OK\<close>: overwriting the flag of
  every row in any way leaves its result unchanged, and with \<open>top_n\<close> at least the
  number of rows the result holds every row whose \<open>OI_PCR\<close> is not NaN, whatever its
  flag. The generic ranking with its quality gate on (the default) returns only rows
  whose flag is set.
\<close>

theorem fixed_ranking_ignores_quality:
  "top_expiries_by_oi_pcr (with_quality q df) top_n = top_expiries_by_oi_pcr df top_n
   \<and> (int (length df) \<le> top_n \<longrightarrow>
        set (top_expiries_by_oi_pcr df top_n) = expiry_row.truncate ` {r \<in> set df. OI_PCR r \<noteq> nan}
        \<and> length (top_expiries_by_oi_pcr df top_n) = length (filter (\<lambda>r. OI_PCR r \<noteq> nan) df))
   \<and> (\<forall>res. top_by_metric str_num df metric top_n descending True = Inr res \<longrightarrow>
        (\<forall>r \<in> set res. Quality_OK r))"
proof -
  let ?k = "\<lambda>r::enriched_row. fillna0 (OI_PCR r)"
  let ?u = "\<lambda>r::enriched_row. r\<lparr>Quality_OK := q r\<rparr>"
  let ?out = "filter (\<lambda>r. OI_PCR r \<noteq> nan) df"
  have f: "filter (\<lambda>r. OI_PCR r \<noteq> nan) (map ?u df) = map ?u ?out"
    by (simp add: filter_map comp_def)
  have t: "map expiry_row.truncate (map ?u xs) = map expiry_row.truncate xs" for xs
    by (simp add: expiry_row.defs)
  have a: "top_expiries_by_oi_pcr (with_quality q df) top_n = top_expiries_by_oi_pcr df top_n"
    unfolding top_expiries_eq with_quality_def f
    by (simp only: sort_values_map py_head_map t) simp
  have b: "set (top_expiries_by_oi_pcr df top_n) = expiry_row.truncate ` {r \<in> set df. OI_PCR r \<noteq> nan}
        \<and> length (top_expiries_by_oi_pcr df top_n) = length ?out"
    if n: "int (length df) \<le> top_n"
  proof -
    have le: "length ?out \<le> length df"
      by (rule length_filter_le)
    have "int (length (sort_values ?k False ?out)) \<le> top_n"
      unfolding length_sort_values using n le by linarith
    then have "py_head top_n (sort_values ?k False ?out) = sort_values ?k False ?out"
      by (rule py_head_all)
    then show ?thesis
      by (simp add: top_expiries_eq)
  qed
  have c: "\<forall>r \<in> set res. Quality_OK r"
    if r: "top_by_metric str_num df metric top_n descending True = Inr res" for res
  proof -
    let ?m = "\<lambda>r. fillna0 (to_num_col str_num metric r)"
    let ?t = "filter (\<lambda>r. to_num_col str_num metric r \<noteq> nan) (filter (\<lambda>r. Quality_OK r = True) df)"
    from r have m: "metric \<in> set columns"
      by (auto simp: top_by_metric_def split: if_splits)
    from r top_by_metric_eq [OF m, of str_num df top_n descending True]
    have "res = py_head top_n (sort_values ?m (\<not> descending) ?t)"
      by simp
    then have "set res \<subseteq> set ?t"
      using set_py_head [of top_n "sort_values ?m (\<not> descending) ?t"] by simp
    then show ?thesis by auto
  qed
  from a b c show ?thesis by blast
qed

lemma tie_table_generic:
  "top_by_metric no_str_num tie_table ''OI_PCR'' 5 True True
     = Inr [ranked_row ''2025-03-21'' (Some (1 / 2)) True]"
  by code_simp

lemma tie_table_fixed:
  "top_expiries_by_oi_pcr tie_table 5
     = [expiry_row.truncate (ranked_row ''2025-01-17'' (Some (1 / 2)) False),
        expiry_row.truncate (ranked_row ''2025-03-21'' (Some (1 / 2)) True)]"
  by code_simp

theorem fixed_ranking_ignores_quality_witness:
  "top_expiries_by_oi_pcr (with_quality pass_all tie_table) 5 = top_expiries_by_oi_pcr tie_table 5
   \<and> int (length tie_table) \<le> 5
   \<and> length (top_expiries_by_oi_pcr tie_table 5) = 2
   \<and> expiry_row.truncate (ranked_row ''2025-01-17'' (Some (1 / 2)) False)
        \<in> set (top_expiries_by_oi_pcr tie_table 5)
   \<and> top_by_metric no_str_num tie_table ''OI_PCR'' 5 True True
        = Inr [ranked_row ''2025-03-21'' (Some (1 / 2)) True]
   \<and> Quality_OK (ranked_row ''2025-03-21'' (Some (1 / 2)) True)"
proof -
  note t = fixed_ranking_ignores_quality [of pass_all tie_table 5 no_str_num "''OI_PCR''" True]
  have n: "int (length tie_table) \<le> 5"
    by (simp add: tie_table_def)
  from t have a: "top_expiries_by_oi_pcr (with_quality pass_all tie_table) 5 = top_expiries_by_oi_pcr tie_table 5"
    by (rule conjunct1)
  from t n have "length (top_expiries_by_oi_pcr tie_table 5)
      = length (filter (\<lambda>r. OI_PCR r \<noteq> nan) tie_table)"
    by blast
  moreover have "length (filter (\<lambda>r. OI_PCR r \<noteq> nan) tie_table) = 2"
    by code_simp
  ultimately have l: "length (top_expiries_by_oi_pcr tie_table 5) = 2"
    by (rule trans)
  from t tie_table_generic
  have "\<forall>r \<in> set [ranked_row ''2025-03-21'' (Some (1 / 2)) True]. Quality_OK r"
    by blast
  then have g: "Quality_OK (ranked_row ''2025-03-21'' (Some (1 / 2)) True)"
    by simp
  have m: "expiry_row.truncate (ranked_row ''2025-01-17'' (Some (1 / 2)) False)
        \<in> set (top_expiries_by_oi_pcr tie_table 5)"
    unfolding tie_table_fixed by simp
  from a n l m tie_table_generic g show ?thesis
    by (intro conjI)
qed

section \<open>Bucket concentration\<close>

lemma py_round_nonneg: "0 \<le> v \<Longrightarrow> 0 \<le> py_round v"
  by (auto simp: py_round_def Let_def)


lemma round_nd_nonneg: "0 \<le> v \<Longrightarrow> 0 \<le> round_nd v n"
  by (simp add: round_nd_def py_round_nonneg)


lemma round_nd_zero [simp]: "round_nd 0 n = 0"
  by (simp add: round_nd_def py_round_def)



lemma length_bucket_rows [simp]: "length (bucket_rows df rq) = 3"
  by (simp add: bucket_rows_def Let_def buckets_def)

lemma length_bucket_term_structure [simp]: "length (bucket_term_structure df rq) = 3"
  by (simp add: bucket_term_structure_def concentration_scoring_def Let_def)

lemma bucket_scores:
  "map Bucket_Concentration_Score (bucket_term_structure df rq)
     = map (\<lambda>b. round_opt (raw_score b) 8) (bucket_rows df rq)"
  by (simp add: bucket_term_structure_def concentration_scoring_def Let_def bucket_base.defs bucket_row.defs)



lemma fillna0_round_opt_nonneg: "0 \<le> fillna0 v \<Longrightarrow> 0 \<le> fillna0 (round_opt v n)"
  by (cases v) (simp_all add: round_nd_nonneg)






section \<open>Enriched tables have non-negative open interest\<close>

lemma map_result_all2: "map_result f xs = Inr ys \<Longrightarrow> list_all2 (\<lambda>x y. f x = Inr y) xs ys"
proof (induction xs arbitrary: ys)
  case Nil
  then show ?case by simp
next
  case (Cons x xs)
  then show ?case
    by (auto split: sum.splits)
qed

lemma add_dte_keeps_open_interest:
  assumes "add_dte to_datetime today base asof = Inr df"
  shows "map Put_OI df = map Put_OI base \<and> map Total_OI df = map Total_OI base"
proof -
  let ?f = "\<lambda>r. case days_from (case asof of Some d \<Rightarrow> d | None \<Rightarrow> today)
                       (dt_date to_datetime (Expiry r)) of
                  Inl e \<Rightarrow> Inl e
                | Inr d \<Rightarrow> Inr (expiry_row.extend r (dte_row.fields d))"
  from assms have "list_all2 (\<lambda>x y. ?f x = Inr y) base df"
    unfolding add_dte_def Let_def by (rule map_result_all2)
  then have "list_all2 (\<lambda>x y. Put_OI y = Put_OI x \<and> Total_OI y = Total_OI x) base df"
    by (rule list_all2_mono) (auto simp: expiry_row.defs dte_row.defs split: sum.splits)
  then show ?thesis
    by (induction rule: list_all2_induct) simp_all
qed

lemma col_sum_nonneg: "\<forall>c \<in> set frame. 0 \<le> fillna0 (col c) \<Longrightarrow> 0 \<le> col_sum col frame"
  unfolding col_sum_def by (rule sum_list_nonneg) auto

text \<open>
  When the provider reports no negative open interest, every row of the enriched table
  has a non-negative put and total open interest.
\<close>

lemma enriched_rows_nonneg:
  assumes "enrich_per_expiry yf to_datetime today symbol m = Inr (df, meta)"
    and "\<forall>e ch. option_chain (yf symbol) e = Some ch \<longrightarrow>
           (\<forall>c \<in> set (calls ch) \<union> set (puts ch). 0 \<le> fillna0 (openInterest c))"
  shows "\<forall>r \<in> set df. 0 \<le> Put_OI r \<and> 0 \<le> Total_OI r"
proof -
  from assms(1) obtain base d where base: "per_expiry_totals yf symbol m = Inr (base, meta)"
    and d: "add_dte to_datetime today base None = Inr d"
    and df: "df = add_event_score (add_quality_flags (add_flow_vs_positioning d)
                    MIN_CALL_OI MIN_CALL_VOL MIN_TOTAL_OI)"
    by (auto simp: enrich_per_expiry_def split: sum.splits)
  have "map Put_OI df = map Put_OI d \<and> map Total_OI df = map Total_OI d"
    unfolding df
    by (simp add: add_event_score_def add_quality_flags_def add_flow_vs_positioning_def Let_def
        dte_row.defs flow_row.defs quality_row.defs enriched_row.defs)
  with add_dte_keeps_open_interest [OF d]
  have same: "map Put_OI df = map Put_OI base" "map Total_OI df = map Total_OI base"
    by simp_all
  have nn: "0 \<le> Put_OI r \<and> 0 \<le> Total_OI r" if "r \<in> set base" for r
  proof -
    from per_expiry_totals_Inr(1) [OF base] that
    obtain e where e: "succeeds (yf symbol) e"
      and r: "r = chain_row symbol e (the (option_chain (yf symbol) e))"
      by auto
    from e obtain ch where ch: "option_chain (yf symbol) e = Some ch"
      by (auto simp: succeeds_def)
    with assms(2) have "\<forall>c \<in> set (calls ch) \<union> set (puts ch). 0 \<le> fillna0 (openInterest c)"
      by blast
    then have "0 \<le> col_sum openInterest (puts ch)" "0 \<le> col_sum openInterest (calls ch)"
      by (auto intro!: col_sum_nonneg)
    then show ?thesis
      unfolding r ch by (simp add: chain_row_def Let_def py_round_nonneg)
  qed
  have "\<forall>v \<in> set (map Put_OI df). 0 \<le> v" "\<forall>v \<in> set (map Total_OI df). 0 \<le> v"
    unfolding same using nn by auto
  then show ?thesis
    by simp
qed

section \<open>Bucket shares\<close>











section \<open>Empty bands\<close>

lemma length_buckets: "length buckets = 3"
  by (simp add: buckets_def)

lemma bucket_rows_nth:
  "i < 3 \<Longrightarrow> bucket_rows df rq ! i
     = bucket_of (quality_filtered df rq)
         (rat_of_int (sum_list (map Total_OI (quality_filtered df rq)))) (buckets ! i)"
  by (simp add: bucket_rows_def Let_def length_buckets)

lemma concentration_scoring_nth:
  "i < length out \<Longrightarrow> concentration_scoring out ! i
     = bucket_base.extend (out ! i)
         (bucket_row.fields
            (round_opt (raw_score (out ! i)) 8)
            (round_opt (if 0 < nansum (map raw_score out)
                        then fdiv (raw_score (out ! i)) (Some (nansum (map raw_score out)))
                        else nan) 6))"
  by (simp add: concentration_scoring_def Let_def)

lemma nansum_without_nan:
  assumes "i < length vs" and "vs ! i = nan"
  shows "nansum (take i vs @ drop (Suc i) vs) = nansum vs"
proof -
  have "vs = take i vs @ vs ! i # drop (Suc i) vs"
    using assms(1) by (rule id_take_nth_drop)
  then have "nansum vs = nansum (take i vs @ vs ! i # drop (Suc i) vs)"
    by simp
  also have "\<dots> = nansum (take i vs @ drop (Suc i) vs)"
    by (simp add: nansum_def assms(2))
  finally show ?thesis by simp
qed

text \<open>
  C10. Let the filtered table have a positive total open interest and let a band have no
  member row in it. Its bucket is emitted all the same, at its place, with its name and
  bounds, all sums 0, \<open>Bucket_TotalOI_Share\<close> 0, both put/call ratios NaN and a NaN
  score (and share). The bucket adds nothing to the sum of the scores, and the scoring
  gives the other buckets the rows it would give them were the empty bucket left out of
  the table.
\<close>

theorem empty_band_is_emitted_and_neutral:
  assumes "0 < sum_list (map Total_OI (quality_filtered df rq))"
    and "i < 3"
    and "buckets ! i = (name, lo, hi)"
    and "\<forall>r \<in> set (quality_filtered df rq). \<not> in_band lo hi (DTE r)"
  shows "Bucket (bucket_term_structure df rq ! i) = name
       \<and> DTE_Min (bucket_term_structure df rq ! i) = lo
       \<and> DTE_Max (bucket_term_structure df rq ! i) = hi
       \<and> Sum_Put_OI (bucket_term_structure df rq ! i) = 0
       \<and> Sum_Call_OI (bucket_term_structure df rq ! i) = 0
       \<and> Sum_Put_Volume (bucket_term_structure df rq ! i) = 0
       \<and> Sum_Call_Volume (bucket_term_structure df rq ! i) = 0
       \<and> Bucket_TotalOI (bucket_term_structure df rq ! i) = 0
       \<and> Bucket_TotalOI_Share (bucket_term_structure df rq ! i) = Some 0
       \<and> Bucket_OI_PCR (bucket_term_structure df rq ! i) = nan
       \<and> Bucket_Volume_PCR (bucket_term_structure df rq ! i) = nan
       \<and> Bucket_Concentration_Score (bucket_term_structure df rq ! i) = nan
       \<and> Bucket_Concentration_Share (bucket_term_structure df rq ! i) = nan
       \<and> nansum (map raw_score (take i (bucket_rows df rq) @ drop (Suc i) (bucket_rows df rq)))
           = nansum (map raw_score (bucket_rows df rq))
       \<and> concentration_scoring (take i (bucket_rows df rq) @ drop (Suc i) (bucket_rows df rq))
           = take i (bucket_term_structure df rq) @ drop (Suc i) (bucket_term_structure df rq)"
proof -
  let ?t = "quality_filtered df rq"
  let ?D = "rat_of_int (sum_list (map Total_OI ?t))"
  let ?out = "bucket_rows df rq"
  let ?b = "?out ! i"
  have w: "filter (\<lambda>r. in_band lo hi (DTE r)) ?t = []"
    using assms(4) by (simp add: filter_empty_conv)
  have D: "0 < ?D"
    using assms(1) by simp
  have b: "?b = \<lparr> Bucket = name, DTE_Min = lo, DTE_Max = hi, Sum_Put_OI = 0, Sum_Call_OI = 0,
                  Bucket_OI_PCR = nan, Sum_Put_Volume = 0, Sum_Call_Volume = 0,
                  Bucket_Volume_PCR = nan, Bucket_TotalOI = 0, Bucket_TotalOI_Share = Some 0 \<rparr>"
    unfolding bucket_rows_nth [OF assms(2)] assms(3) bucket_of_def
    using D by (simp add: w Let_def py_round_def)
  have raw: "raw_score ?b = nan"
    unfolding b by (simp add: raw_score_def)
  have i: "i < length ?out"
    using assms(2) by simp
  have row: "bucket_term_structure df rq ! i
      = bucket_base.extend ?b (bucket_row.fields nan nan)"
    unfolding bucket_term_structure_def concentration_scoring_nth [OF i] raw by simp
  have fields: "Bucket (bucket_term_structure df rq ! i) = name
       \<and> DTE_Min (bucket_term_structure df rq ! i) = lo
       \<and> DTE_Max (bucket_term_structure df rq ! i) = hi
       \<and> Sum_Put_OI (bucket_term_structure df rq ! i) = 0
       \<and> Sum_Call_OI (bucket_term_structure df rq ! i) = 0
       \<and> Sum_Put_Volume (bucket_term_structure df rq ! i) = 0
       \<and> Sum_Call_Volume (bucket_term_structure df rq ! i) = 0
       \<and> Bucket_TotalOI (bucket_term_structure df rq ! i) = 0
       \<and> Bucket_TotalOI_Share (bucket_term_structure df rq ! i) = Some 0
       \<and> Bucket_OI_PCR (bucket_term_structure df rq ! i) = nan
       \<and> Bucket_Volume_PCR (bucket_term_structure df rq ! i) = nan
       \<and> Bucket_Concentration_Score (bucket_term_structure df rq ! i) = nan
       \<and> Bucket_Concentration_Share (bucket_term_structure df rq ! i) = nan"
    unfolding row b by (simp add: bucket_base.defs bucket_row.defs)
  have "nansum (take i (map raw_score ?out) @ drop (Suc i) (map raw_score ?out))
      = nansum (map raw_score ?out)"
    by (rule nansum_without_nan) (use i raw in simp_all)
  then have same: "nansum (map raw_score (take i ?out @ drop (Suc i) ?out))
      = nansum (map raw_score ?out)"
    by (simp add: take_map drop_map)
  have rest: "concentration_scoring (take i ?out @ drop (Suc i) ?out)
      = take i (bucket_term_structure df rq) @ drop (Suc i) (bucket_term_structure df rq)"
    unfolding bucket_term_structure_def concentration_scoring_def Let_def same
    by (simp add: take_map drop_map)
  from fields same rest show ?thesis
    by simp
qed

lemma bucket_table_filtered: "quality_filtered bucket_table True = bucket_table"
  by (simp add: quality_filtered_def bucket_table_def ranked_row_def)

theorem empty_band_is_emitted_and_neutral_witness:
  "0 < sum_list (map Total_OI (quality_filtered bucket_table True))
   \<and> buckets ! 2 = (''Long_61_120'', 61, 120)
   \<and> Bucket (bucket_term_structure bucket_table True ! 2) = ''Long_61_120''
   \<and> Bucket_TotalOI (bucket_term_structure bucket_table True ! 2) = 0
   \<and> Bucket_TotalOI_Share (bucket_term_structure bucket_table True ! 2) = Some 0
   \<and> Bucket_OI_PCR (bucket_term_structure bucket_table True ! 2) = nan
   \<and> Bucket_Concentration_Score (bucket_term_structure bucket_table True ! 2) = nan
   \<and> concentration_scoring (take 2 (bucket_rows bucket_table True) @ drop (Suc 2) (bucket_rows bucket_table True))
       = take 2 (bucket_term_structure bucket_table True) @ drop (Suc 2) (bucket_term_structure bucket_table True)"
proof -
  have D: "0 < sum_list (map Total_OI (quality_filtered bucket_table True))"
    unfolding bucket_table_filtered by (simp add: bucket_table_def ranked_row_def)
  have i: "(2::nat) < 3"
    by simp
  have band: "buckets ! 2 = (''Long_61_120'', 61, 120)"
    by (simp add: buckets_def)
  have empty: "\<forall>r \<in> set (quality_filtered bucket_table True). \<not> in_band 61 120 (DTE r)"
    unfolding bucket_table_filtered by (simp add: bucket_table_def ranked_row_def in_band_def)
  from empty_band_is_emitted_and_neutral [OF D i band empty] D band show ?thesis
    by simp
qed

section \<open>The two denominators\<close>

lemma base_total_oi_share:
  "map Bucket_TotalOI_Share (bucket_term_structure df rq) = map Bucket_TotalOI_Share (bucket_rows df rq)"
  by (simp add: bucket_term_structure_def concentration_scoring_def Let_def bucket_base.defs
      bucket_row.defs)

lemma base_total_oi:
  "map Bucket_TotalOI (bucket_term_structure df rq) = map Bucket_TotalOI (bucket_rows df rq)"
  by (simp add: bucket_term_structure_def concentration_scoring_def Let_def bucket_base.defs
      bucket_row.defs)

lemma bucket_of_share:
  "Bucket_TotalOI_Share (bucket_of t D (name, lo, hi))
     = (if 0 < D then Some (round_nd (rat_of_int (band_total_oi t lo hi) / D) 6) else nan)"
  by (simp add: bucket_of_def Let_def band_total_oi_def)

lemma bucket_of_total:
  "Bucket_TotalOI (bucket_of t D (name, lo, hi)) = band_total_oi t lo hi"
  by (simp add: bucket_of_def Let_def band_total_oi_def py_round_of_int)

lemma band_total_oi_outside:
  assumes "outside_all_bands (DTE x)" and "(name, lo, hi) \<in> set buckets"
  shows "band_total_oi (x # t) lo hi = band_total_oi t lo hi"
proof -
  from assms have "\<not> in_band lo hi (DTE x)"
    by (auto simp: outside_all_bands_def list_all_iff)
  then show ?thesis
    by (simp add: band_total_oi_def)
qed

lemma bucket_share_formula:
  "map Bucket_TotalOI_Share (bucket_term_structure df rq)
     = map (\<lambda>(name, lo, hi).
              if 0 < rat_of_int (sum_list (map Total_OI (quality_filtered df rq)))
              then Some (round_nd (rat_of_int (band_total_oi (quality_filtered df rq) lo hi)
                           / rat_of_int (sum_list (map Total_OI (quality_filtered df rq)))) 6)
              else nan)
         buckets"
  unfolding base_total_oi_share bucket_rows_def Let_def
  by (auto simp: bucket_of_share)

lemma gate_on: "quality_filtered df True = filter (\<lambda>r. Quality_OK r) df"
  by (simp add: quality_filtered_def)

text \<open>
  C7. With the quality gate on, the \<open>Bucket_TotalOI_Share\<close> of every bucket is the total
  open interest of the rows that pass the gate and lie in its band, over the total open
  interest of all the rows that pass the gate (rounded to 6 decimals; NaN when that total
  is not positive). A row that fails the gate changes nothing in the bucket table: it is
  in no bucket and not in the denominator. A row that passes the gate and whose DTE lies
  in no band leaves the \<open>Bucket_TotalOI\<close> of every bucket as it is, and its open interest
  is added to the denominator of every share. The denominator of the event score, by
  contrast, is the total open interest of all the rows of the table it is given: the
  quality flag plays no part in it.
\<close>

theorem share_denominators:
  fixes df :: "'a quality_row_scheme list" and qdf :: "quality_row list"
  shows "map Bucket_TotalOI_Share (bucket_term_structure df True)
           = map (\<lambda>(name, lo, hi).
                    if 0 < rat_of_int (sum_list (map Total_OI (filter (\<lambda>r. Quality_OK r) df)))
                    then Some (round_nd
                                 (rat_of_int (band_total_oi (filter (\<lambda>r. Quality_OK r) df) lo hi)
                                  / rat_of_int (sum_list (map Total_OI (filter (\<lambda>r. Quality_OK r) df)))) 6)
                    else nan)
               buckets
       \<and> (\<not> Quality_OK x \<longrightarrow>
            bucket_term_structure (x # df) True = bucket_term_structure df True)
       \<and> (Quality_OK x \<and> outside_all_bands (DTE x) \<longrightarrow>
            map Bucket_TotalOI (bucket_term_structure (x # df) True)
              = map Bucket_TotalOI (bucket_term_structure df True)
            \<and> map Bucket_TotalOI_Share (bucket_term_structure (x # df) True)
              = map (\<lambda>(name, lo, hi).
                       if 0 < rat_of_int (Total_OI x + sum_list (map Total_OI (filter (\<lambda>r. Quality_OK r) df)))
                       then Some (round_nd
                                    (rat_of_int (band_total_oi (filter (\<lambda>r. Quality_OK r) df) lo hi)
                                     / rat_of_int (Total_OI x
                                                   + sum_list (map Total_OI (filter (\<lambda>r. Quality_OK r) df)))) 6)
                       else nan)
                  buckets)
       \<and> map EventScore_OIshare_x_OI_PCR (add_event_score qdf)
           = map (\<lambda>r. if 0 < rat_of_int (sum_list (map Total_OI qdf))
                       then round_opt (fmul (Some (rat_of_int (Total_OI r)
                                                   / rat_of_int (sum_list (map Total_OI qdf))))
                                            (OI_PCR r)) 8
                       else nan)
               qdf"
proof -
  let ?t = "filter (\<lambda>r. Quality_OK r) df"
  have a: "map Bucket_TotalOI_Share (bucket_term_structure df True)
           = map (\<lambda>(name, lo, hi).
                    if 0 < rat_of_int (sum_list (map Total_OI ?t))
                    then Some (round_nd (rat_of_int (band_total_oi ?t lo hi)
                                 / rat_of_int (sum_list (map Total_OI ?t))) 6)
                    else nan)
               buckets"
    using bucket_share_formula [of df True] unfolding gate_on .
  have b: "bucket_term_structure (x # df) True = bucket_term_structure df True"
    if "\<not> Quality_OK x"
  proof -
    from that have "quality_filtered (x # df) True = quality_filtered df True"
      by (simp add: quality_filtered_def)
    then show ?thesis
      by (simp add: bucket_term_structure_def bucket_rows_def)
  qed
  have c: "map Bucket_TotalOI (bucket_term_structure (x # df) True)
              = map Bucket_TotalOI (bucket_term_structure df True)
            \<and> map Bucket_TotalOI_Share (bucket_term_structure (x # df) True)
              = map (\<lambda>(name, lo, hi).
                       if 0 < rat_of_int (Total_OI x + sum_list (map Total_OI ?t))
                       then Some (round_nd (rat_of_int (band_total_oi ?t lo hi)
                                    / rat_of_int (Total_OI x + sum_list (map Total_OI ?t))) 6)
                       else nan)
                  buckets"
    if h: "Quality_OK x \<and> outside_all_bands (DTE x)"
  proof -
    from h have f: "filter (\<lambda>r. Quality_OK r) (x # df) = x # ?t"
      by simp
    from h have out: "band_total_oi (x # ?t) lo hi = band_total_oi ?t lo hi"
      if "(name, lo, hi) \<in> set buckets" for name lo hi
      using that by (intro band_total_oi_outside [of x name]) simp_all
    have "map Bucket_TotalOI (bucket_rows (x # df) True) = map Bucket_TotalOI (bucket_rows df True)"
      unfolding bucket_rows_def Let_def gate_on f
      by (auto simp: bucket_of_total out)
    then have tot: "map Bucket_TotalOI (bucket_term_structure (x # df) True)
              = map Bucket_TotalOI (bucket_term_structure df True)"
      unfolding base_total_oi .
    have sh: "map Bucket_TotalOI_Share (bucket_term_structure (x # df) True)
              = map (\<lambda>(name, lo, hi).
                       if 0 < rat_of_int (Total_OI x + sum_list (map Total_OI ?t))
                       then Some (round_nd (rat_of_int (band_total_oi ?t lo hi)
                                    / rat_of_int (Total_OI x + sum_list (map Total_OI ?t))) 6)
                       else nan)
                  buckets"
      unfolding bucket_share_formula gate_on f
      by (auto simp: out)
    from tot sh show ?thesis
      by (rule conjI)
  qed
  have d: "map EventScore_OIshare_x_OI_PCR (add_event_score qdf)
           = map (\<lambda>r. if 0 < rat_of_int (sum_list (map Total_OI qdf))
                       then round_opt (fmul (Some (rat_of_int (Total_OI r)
                                                   / rat_of_int (sum_list (map Total_OI qdf))))
                                            (OI_PCR r)) 8
                       else nan)
               qdf"
    by (simp add: add_event_score_def Let_def quality_row.defs enriched_row.defs not_less)
  from a b c d show ?thesis
    by blast
qed

lemma far_row_outside: "outside_all_bands (DTE far_row)"
  by (simp add: far_row_def ranked_row_def outside_all_bands_def buckets_def in_band_def)

lemma near_rows_shares:
  "map Bucket_TotalOI_Share (bucket_term_structure near_rows True) = [Some (1 / 2), Some (1 / 2), Some 0]"
  by code_simp

lemma far_near_shares:
  "map Bucket_TotalOI_Share (bucket_term_structure (far_row # near_rows) True)
     = [Some (333333 / 1000000), Some (333333 / 1000000), Some 0]"
  by code_simp

lemma low_near_event_scores:
  "map EventScore_OIshare_x_OI_PCR (add_event_score (map quality_row.truncate (low_row # near_rows)))
     = [Some (16666667 / 100000000), Some (16666667 / 100000000), Some (16666667 / 100000000)]"
  by code_simp

lemma near_event_scores:
  "map EventScore_OIshare_x_OI_PCR (add_event_score (map quality_row.truncate near_rows))
     = [Some (1 / 4), Some (1 / 4)]"
  by code_simp

theorem share_denominators_witness:
  "\<not> Quality_OK low_row
   \<and> bucket_term_structure (low_row # near_rows) True = bucket_term_structure near_rows True
   \<and> map Bucket_TotalOI_Share (bucket_term_structure (low_row # near_rows) True)
       = [Some (1 / 2), Some (1 / 2), Some 0]
   \<and> map EventScore_OIshare_x_OI_PCR (add_event_score (map quality_row.truncate near_rows))
       = [Some (1 / 4), Some (1 / 4)]
   \<and> map EventScore_OIshare_x_OI_PCR (add_event_score (map quality_row.truncate (low_row # near_rows)))
       = [Some (16666667 / 100000000), Some (16666667 / 100000000), Some (16666667 / 100000000)]
   \<and> Quality_OK far_row
   \<and> outside_all_bands (DTE far_row)
   \<and> map Bucket_TotalOI (bucket_term_structure (far_row # near_rows) True)
       = map Bucket_TotalOI (bucket_term_structure near_rows True)
   \<and> map Bucket_TotalOI_Share (bucket_term_structure near_rows True)
       = [Some (1 / 2), Some (1 / 2), Some 0]
   \<and> map Bucket_TotalOI_Share (bucket_term_structure (far_row # near_rows) True)
       = [Some (333333 / 1000000), Some (333333 / 1000000), Some 0]"
proof -
  have lq: "\<not> Quality_OK low_row"
    by (simp add: low_row_def ranked_row_def)
  have fq: "Quality_OK far_row"
    by (simp add: far_row_def ranked_row_def)
  note low = share_denominators [of near_rows low_row, THEN conjunct2, THEN conjunct1, rule_format, OF lq]
  note far = share_denominators [of near_rows far_row, THEN conjunct2, THEN conjunct2, THEN conjunct1,
      rule_format, OF conjI [OF fq far_row_outside], THEN conjunct1]
  have ls: "map Bucket_TotalOI_Share (bucket_term_structure (low_row # near_rows) True)
       = [Some (1 / 2), Some (1 / 2), Some 0]"
    unfolding low by (rule near_rows_shares)
  from lq low ls near_event_scores low_near_event_scores fq far_row_outside far near_rows_shares
    far_near_shares
  show ?thesis
    by (intro conjI)
qed

end
